theory Spec2Isabelle
  imports Main "HOL-Library.Char_ord" "HOL-Library.List_Lexorder" "HOL-Library.Option_ord"
    "HOL-Library.Product_Lexorder"
begin

text \<open>
  The daily-game pipeline of the Steamdle server: the selection of the day's game by its
  last-played date, the scraping of its review pages into clue records, and the daily
  cache; and the autocomplete endpoint. The server is src/unnamed/part_001 from line 153
  on; the same server with the daily cache added is the last document of
  src/public/script.js (from line 973 on). The store, its random numbers and the network
  are parameters of each request.
\<close>

section \<open>The catalog store\<close>

text \<open>
  The two tables of the SQLite schema (\<^verbatim>\<open>CREATE TABLE games\<close>, \<^verbatim>\<open>CREATE TABLE game_reviews\<close>
  in \<^verbatim>\<open>initializeDatabaseStructure\<close>, src/unnamed/part_000, lines 573-588).
  A table is the list of its rows in scan (rowid) order. Dates are the \<^verbatim>\<open>yyyy-MM-dd\<close> strings
  the server writes; SQLite compares them as text, byte by byte, which is the lexicographic
  order of \<^typ>\<open>string\<close>. \<^verbatim>\<open>NULL\<close> is \<open>None\<close> and sorts first, as in SQLite.
\<close>

record game =
  gid :: int
  title :: string
  steam_app_id :: string
  last_played_on :: "string option"
  is_active :: bool

record game_review =
  game_id :: int
  review_page_url :: string
  clue_order :: int

record db =
  games :: "game list"
  game_reviews :: "game_review list"

text \<open>The row of \<^verbatim>\<open>SELECT id, title, steam_app_id\<close>: the value of the handler's \<^verbatim>\<open>game\<close>.\<close>

record game_row =
  row_id :: int
  row_title :: string
  row_steam_app_id :: string

definition select_row :: "game \<Rightarrow> game_row" where
  "select_row g = \<lparr>row_id = gid g, row_title = title g, row_steam_app_id = steam_app_id g\<rparr>"

text \<open>
  \<^verbatim>\<open>ORDER BY key LIMIT 1\<close>: the first row with the least key, none on an empty selection.
\<close>

fun order_by_limit_1 :: "('a \<Rightarrow> 'k::linorder) \<Rightarrow> 'a list \<Rightarrow> 'a option" where
  "order_by_limit_1 key [] = None"
| "order_by_limit_1 key (x # xs) =
     (case order_by_limit_1 key xs of
        None \<Rightarrow> Some x
      | Some m \<Rightarrow> if key x \<le> key m then Some x else Some m)"

text \<open>
  Block A: \<^verbatim>\<open>SELECT ... WHERE last_played_on = ? AND is_active = TRUE\<close>; \<^verbatim>\<open>db.get\<close> hands
  back the first row of the result.
\<close>

definition query_preselected :: "string \<Rightarrow> game list \<Rightarrow> game_row option" where
  "query_preselected todayStr gs =
     map_option select_row (find (\<lambda>g. last_played_on g = Some todayStr \<and> is_active g) gs)"

text \<open>
  Block B: \<^verbatim>\<open>WHERE last_played_on IS NULL AND is_active = TRUE ORDER BY RANDOM() LIMIT 1\<close>.
  \<open>rnd\<close> is the value \<^verbatim>\<open>RANDOM()\<close> draws for each row of this query.
\<close>

definition query_unplayed :: "(game \<Rightarrow> int) \<Rightarrow> game list \<Rightarrow> game_row option" where
  "query_unplayed rnd gs =
     map_option select_row
       (order_by_limit_1 rnd (filter (\<lambda>g. last_played_on g = None \<and> is_active g) gs))"

text \<open>Block C: \<^verbatim>\<open>WHERE is_active = TRUE ORDER BY last_played_on ASC, RANDOM() LIMIT 1\<close>.\<close>

definition query_least_recent :: "(game \<Rightarrow> int) \<Rightarrow> game list \<Rightarrow> game_row option" where
  "query_least_recent rnd gs =
     map_option select_row
       (order_by_limit_1 (\<lambda>g. (last_played_on g, rnd g)) (filter is_active gs))"

text \<open>Block D: \<^verbatim>\<open>UPDATE games SET last_played_on = ? WHERE id = ?\<close>.\<close>

definition update_last_played_on :: "string \<Rightarrow> int \<Rightarrow> game list \<Rightarrow> game list" where
  "update_last_played_on todayStr i gs =
     map (\<lambda>g. if gid g = i then g\<lparr>last_played_on := Some todayStr\<rparr> else g) gs"

text \<open>
  \<^verbatim>\<open>SELECT review_page_url FROM game_reviews WHERE game_id = ? ORDER BY clue_order ASC LIMIT 6\<close>,
  mapped to the column. Rows of equal \<^verbatim>\<open>clue_order\<close> stay in scan order.
\<close>

definition query_review_urls :: "int \<Rightarrow> game_review list \<Rightarrow> string list" where
  "query_review_urls i rs =
     map review_page_url (take 6 (sort_key clue_order (filter (\<lambda>r. game_id r = i) rs)))"

section \<open>Review pages and clue records\<close>

text \<open>
  What the cheerio selectors of \<^verbatim>\<open>scrapeSteamReview\<close> read from a fetched page, before any
  trimming: the text of a selection is the empty string when nothing matches, an attribute
  or an inner HTML is absent (\<open>None\<close>) then.
\<close>

record page =
  persona_name_text :: string
  header_name_text :: string
  avatar_last_child_src :: "string option"
  avatar_second_img_src :: "string option"
  rating_summary_text :: string
  play_time_text :: string
  recommendation_date_text :: string
  review_text_html :: "string option"

record review_data =
  reviewerName :: string
  reviewerAvatarUrl :: "string option"
  recommendation :: string
  playtime :: string
  datePosted :: string
  reviewText :: string

text \<open>
  A clue record: the scraped review, or the object of the \<^verbatim>\<open>catch\<close> branch,
  \<^verbatim>\<open>{ error: true, message, originalUrl, reviewerName }\<close>.
\<close>

datatype clue =
    Review review_data
  | Failure (error: bool) (message: string) (originalUrl: string) (failure_reviewerName: string)

section \<open>One request's environment\<close>

text \<open>
  What a request cannot decide itself: whether each statement of the store calls back with
  an error, the value \<^verbatim>\<open>RANDOM()\<close> yields for each row in the queries of Blocks B and C,
  and the network. \<open>http_get url = None\<close> is
  \<^verbatim>\<open>axios.get\<close> (or the load of its markup) throwing: network failure, non-2xx status,
  timeout. \<open>html_text\<close> is cheerio's \<^verbatim>\<open>$('<div>').html(s).text()\<close>.
\<close>

datatype rows_outcome = RowsError | RowsNull | RowsOk

record env =
  err_A :: bool
  err_B :: bool
  err_C :: bool
  err_D :: bool
  random_B :: "game \<Rightarrow> int"
  random_C :: "game \<Rightarrow> int"
  reviews_outcome :: rows_outcome
  http_get :: "string \<Rightarrow> page option"
  html_text :: "string \<Rightarrow> string"

text \<open>The statements sent to the store and the pages requested, in order.\<close>

datatype event =
    QueryPreselected
  | QueryUnplayed
  | QueryLeastRecent
  | UpdateLastPlayed int
  | QueryReviewUrls int
  | HttpGet string

text \<open>An awaited promise: rejected (the \<^verbatim>\<open>catch\<close> block runs) or resolved with a value.\<close>

datatype 'a settled = Rejected | Resolved 'a

section \<open>The daily selector\<close>

text \<open>
  Block D of the handler (part_001, lines 322-336): mark the game chosen by Block B or C as
  played today. The promise rejects when the update fails, and the table is then as it was.
\<close>

definition block_D ::
  "env \<Rightarrow> string \<Rightarrow> game_row \<Rightarrow> game list \<Rightarrow> event list
    \<Rightarrow> game_row option settled \<times> game list \<times> event list" where
  "block_D e todayStr g gs log =
     (if err_D e then (Rejected, gs, log @ [UpdateLastPlayed (row_id g)])
      else (Resolved (Some g), update_last_played_on todayStr (row_id g) gs,
            log @ [UpdateLastPlayed (row_id g)]))"

text \<open>
  The \<^verbatim>\<open>try\<close> block of \<^verbatim>\<open>GET /api/daily-game\<close> down to the test \<^verbatim>\<open>if (!game)\<close>: Blocks A, B, C
  and D (part_001, lines 272-337). It yields the value of \<^verbatim>\<open>game\<close> (\<open>None\<close> for
  \<^verbatim>\<open>undefined\<close>), the table and the statements issued. The cache-integrated handler has
  the same blocks (script.js, lines 1152-1192).
\<close>

definition select_daily_game ::
  "env \<Rightarrow> string \<Rightarrow> game list \<Rightarrow> game_row option settled \<times> game list \<times> event list" where
  "select_daily_game e todayStr gs =
     (if err_A e then (Rejected, gs, [QueryPreselected])
      else
       (case query_preselected todayStr gs of
          Some g \<Rightarrow> (Resolved (Some g), gs, [QueryPreselected])
        | None \<Rightarrow>
           (if err_B e then (Rejected, gs, [QueryPreselected, QueryUnplayed])
            else
             (case query_unplayed (random_B e) gs of
                Some g \<Rightarrow> block_D e todayStr g gs [QueryPreselected, QueryUnplayed]
              | None \<Rightarrow>
                 (if err_C e
                  then (Rejected, gs, [QueryPreselected, QueryUnplayed, QueryLeastRecent])
                  else
                   (case query_least_recent (random_C e) gs of
                      Some g \<Rightarrow>
                        block_D e todayStr g gs
                          [QueryPreselected, QueryUnplayed, QueryLeastRecent]
                    | None \<Rightarrow>
                        (Resolved None, gs,
                         [QueryPreselected, QueryUnplayed, QueryLeastRecent])))))))"




section \<open>String operations of the scraper\<close>

text \<open>
  JavaScript's string methods on \<^typ>\<open>string\<close>. A \<^typ>\<open>char\<close> is a UTF-16 code unit below
  256, that is a character of Latin-1: \<open>CHR 0xA0\<close> is the no-break space. The white space
  of \<^verbatim>\<open>trim\<close>, \<^verbatim>\<open>\s\<close> and \<^verbatim>\<open>parseInt\<close> in this range is tab, line feed, vertical tab,
  form feed, carriage return, space and no-break space; the white space above U+00FF is
  not a value of the type.
\<close>

definition is_space :: "char \<Rightarrow> bool" where
  "is_space c =
     (c \<in> set [CHR '' '', CHR 0x09, CHR 0x0A, CHR 0x0B, CHR 0x0C, CHR 0x0D, CHR 0xA0])"

definition trim :: "string \<Rightarrow> string" where
  "trim s = rev (dropWhile is_space (rev (dropWhile is_space s)))"

definition startsWith :: "string \<Rightarrow> string \<Rightarrow> bool" where
  "startsWith s p = (take (length p) s = p)"

fun str_includes :: "string \<Rightarrow> string \<Rightarrow> bool" where
  "str_includes [] sub = (sub = [])"
| "str_includes (c # cs) sub = (startsWith (c # cs) sub \<or> str_includes cs sub)"

text \<open>The text before and after the first occurrence of a non-empty separator.\<close>

fun split_first :: "string \<Rightarrow> string \<Rightarrow> (string \<times> string) option" where
  "split_first sep [] = None"
| "split_first sep (c # cs) =
     (if startsWith (c # cs) sep then Some ([], drop (length sep) (c # cs))
      else map_option (\<lambda>(a, b). (c # a, b)) (split_first sep cs))"

text \<open>\<^verbatim>\<open>s.split(sep)[0]\<close>\<close>

definition split_0 :: "string \<Rightarrow> string \<Rightarrow> string" where
  "split_0 sep s = (case split_first sep s of None \<Rightarrow> s | Some (a, b) \<Rightarrow> a)"

text \<open>\<^verbatim>\<open>s.split(sep)[1]\<close>, \<^verbatim>\<open>undefined\<close> when the separator does not occur.\<close>

definition split_1 :: "string \<Rightarrow> string \<Rightarrow> string option" where
  "split_1 sep s =
     (case split_first sep s of None \<Rightarrow> None | Some (a, b) \<Rightarrow> Some (split_0 sep b))"

text \<open>\<^verbatim>\<open>s.replace(pat, '')\<close> with a string pattern: the first occurrence only.\<close>

definition remove_first :: "string \<Rightarrow> string \<Rightarrow> string" where
  "remove_first pat s = (case split_first pat s of None \<Rightarrow> s | Some (a, b) \<Rightarrow> a @ b)"

text \<open>
  \<^verbatim>\<open>/\(([^)]+) at review time\)/\<close>. After an opening parenthesis the group runs up to the
  first closing one, so the match is there or nowhere at this start: the text up to that
  parenthesis must end in \<^verbatim>\<open> at review time\<close> and be longer than it.
\<close>

definition at_review_time_here :: "string \<Rightarrow> string option" where
  "at_review_time_here rest =
     (let seg = takeWhile (\<lambda>c. c \<noteq> CHR '')'') rest; n = length seg
      in if n < length rest \<and> 15 < n \<and> drop (n - 15) seg = '' at review time''
         then Some (take (n - 15) seg) else None)"

text \<open>\<^verbatim>\<open>playTimeText.match(...)\<close>: the group of the leftmost match.\<close>

fun match_at_review_time :: "string \<Rightarrow> string option" where
  "match_at_review_time [] = None"
| "match_at_review_time (c # cs) =
     (if c = CHR ''(''
      then (case at_review_time_here cs of
              Some cap \<Rightarrow> Some cap
            | None \<Rightarrow> match_at_review_time cs)
      else match_at_review_time cs)"

text \<open>
  \<^verbatim>\<open>/<br\s*\/?>/gi\<close>: the length of the tag a string starts with, 0 when it starts with none.
\<close>

definition br_tag_length :: "string \<Rightarrow> nat" where
  "br_tag_length s =
     (if length s \<ge> 3 \<and> s ! 0 = CHR ''<'' \<and> s ! 1 \<in> {CHR ''b'', CHR ''B''}
         \<and> s ! 2 \<in> {CHR ''r'', CHR ''R''}
      then (let ws = takeWhile is_space (drop 3 s); rest = drop (3 + length ws) s
            in if startsWith rest ''/>'' then 3 + length ws + 2
               else if startsWith rest ''>'' then 3 + length ws + 1
               else 0)
      else 0)"

text \<open>\<open>k\<close> characters of a tag already matched are still to be skipped.\<close>

fun replace_br_from :: "nat \<Rightarrow> string \<Rightarrow> string" where
  "replace_br_from k [] = []"
| "replace_br_from k (c # cs) =
     (if 0 < k then replace_br_from (k - 1) cs
      else (case br_tag_length (c # cs) of
              0 \<Rightarrow> c # replace_br_from 0 cs
            | Suc n \<Rightarrow> CHR 0x0A # replace_br_from n cs))"

text \<open>\<^verbatim>\<open>reviewContentHTML.replace(/<br\s*\/?>/gi, '\n')\<close>\<close>

definition replace_br :: "string \<Rightarrow> string" where
  "replace_br s = replace_br_from 0 s"

section \<open>The scraper\<close>

text \<open>
  \<^verbatim>\<open>scrapeSteamReview\<close> (part_001, lines 355-421), one definition for each group of
  statements that fills a field of \<^verbatim>\<open>reviewData\<close>, applied in the order of the source.
\<close>

definition default_reviewData :: review_data where
  "default_reviewData =
     \<lparr>reviewerName = ''A Steam User'', reviewerAvatarUrl = None,
      recommendation = ''Not specified'', playtime = ''Playtime not shown'',
      datePosted = ''Date not found'', reviewText = ''Could not load review text.''\<rparr>"

definition scrape_reviewerName :: "page \<Rightarrow> review_data \<Rightarrow> review_data" where
  "scrape_reviewerName p reviewData =
     (let tempName = trim (persona_name_text p)
      in if tempName \<noteq> [] then reviewData\<lparr>reviewerName := tempName\<rparr>
         else (let tempName = trim (header_name_text p)
               in if tempName \<noteq> [] then reviewData\<lparr>reviewerName := tempName\<rparr>
                  else reviewData))"

text \<open>A string that may be \<^verbatim>\<open>undefined\<close> is truthy when it is there and not empty.\<close>

definition truthy :: "string option \<Rightarrow> bool" where
  "truthy v = (case v of None \<Rightarrow> False | Some s \<Rightarrow> s \<noteq> [])"

definition scrape_reviewerAvatarUrl :: "page \<Rightarrow> review_data \<Rightarrow> review_data" where
  "scrape_reviewerAvatarUrl p reviewData =
     (let avatarSrc = avatar_last_child_src p;
          avatarSrc = (if \<not> truthy avatarSrc then avatar_second_img_src p else avatarSrc)
      in if truthy avatarSrc then reviewData\<lparr>reviewerAvatarUrl := avatarSrc\<rparr>
         else reviewData)"

definition scrape_recommendation :: "page \<Rightarrow> review_data \<Rightarrow> review_data" where
  "scrape_recommendation p reviewData =
     (let tempRec = trim (rating_summary_text p)
      in if tempRec \<noteq> [] then reviewData\<lparr>recommendation := tempRec\<rparr> else reviewData)"

text \<open>
  \<^verbatim>\<open>playTimeText.split('/')[1]?.trim().split(' on record')[0]?.trim()\<close>
\<close>

definition fallbackPlaytime :: "string \<Rightarrow> string option" where
  "fallbackPlaytime playTimeText =
     map_option (\<lambda>s. trim (split_0 '' on record'' (trim s))) (split_1 ''/'' playTimeText)"

definition scrape_playtime :: "page \<Rightarrow> review_data \<Rightarrow> review_data" where
  "scrape_playtime p reviewData =
     (let playTimeText = trim (play_time_text p)
      in case match_at_review_time playTimeText of
           Some cap \<Rightarrow> reviewData\<lparr>playtime := cap\<rparr>
         | None \<Rightarrow>
            (if playTimeText \<noteq> [] then
               (if truthy (fallbackPlaytime playTimeText) then
                  (let pt = the (fallbackPlaytime playTimeText);
                       pt = (if \<not> str_includes pt ''hrs'' then pt @ '' hrs'' else pt);
                       pt = (if pt = ''hrs'' then ''Playtime not shown'' else pt)
                   in reviewData\<lparr>playtime := pt\<rparr>)
                else reviewData)
             else reviewData))"

definition scrape_datePosted :: "page \<Rightarrow> review_data \<Rightarrow> review_data" where
  "scrape_datePosted p reviewData =
     (let tempDate = remove_first ''Posted: '' (trim (recommendation_date_text p))
      in if tempDate \<noteq> [] then reviewData\<lparr>datePosted := tempDate\<rparr> else reviewData)"

definition scrape_reviewText :: "(string \<Rightarrow> string) \<Rightarrow> page \<Rightarrow> review_data \<Rightarrow> review_data" where
  "scrape_reviewText to_text p reviewData =
     (if truthy (review_text_html p)
      then reviewData\<lparr>reviewText := trim (to_text (replace_br (the (review_text_html p))))\<rparr>
      else reviewData)"

definition parse_review_page :: "(string \<Rightarrow> string) \<Rightarrow> page \<Rightarrow> review_data" where
  "parse_review_page to_text p =
     scrape_reviewText to_text p
       (scrape_datePosted p
         (scrape_playtime p
           (scrape_recommendation p
             (scrape_reviewerAvatarUrl p
               (scrape_reviewerName p default_reviewData)))))"

definition scrapeSteamReview :: "env \<Rightarrow> string \<Rightarrow> clue" where
  "scrapeSteamReview e reviewUrl =
     (case http_get e reviewUrl of
        Some p \<Rightarrow> Review (parse_review_page (html_text e) p)
      | None \<Rightarrow> Failure True ''Scraping failed'' reviewUrl ''Error'')"

section \<open>Responses\<close>

text \<open>
  The JSON bodies the daily-game handlers send or cache:
  \<^verbatim>\<open>{title, appId, reviews}\<close>, \<^verbatim>\<open>{error: true, message, title, appId, reviews}\<close>,
  \<^verbatim>\<open>{error: true, message}\<close> and \<^verbatim>\<open>{error: "..."}\<close>. \<^verbatim>\<open>res.json\<close> alone answers 200.
\<close>

datatype json_body =
    GameData string string "clue list"
  | GameDataError string string "string option" "clue list"
  | ErrorMarker string
  | ErrorString string

record response =
  status :: nat
  body :: json_body

section \<open>The handler without cache\<close>

text \<open>
  \<^verbatim>\<open>fetchReviewsForGameAndRespond(game, res)\<close> (part_001, lines 424-466): the response and
  the events. \<^verbatim>\<open>Promise.all\<close> over the mapped URLs is the list of the clue records in the
  order of the URLs.
\<close>

definition fetchReviewsForGameAndRespond ::
  "env \<Rightarrow> game_row \<Rightarrow> game_review list \<Rightarrow> response \<times> event list" where
  "fetchReviewsForGameAndRespond e game rs =
     (case reviews_outcome e of
        RowsError \<Rightarrow>
          (\<lparr>status = 500, body = ErrorString ''Could not fetch review URLs.''\<rparr>,
           [QueryReviewUrls (row_id game)])
      | RowsNull \<Rightarrow>
          (\<lparr>status = 500,
            body = ErrorString ''Database returned unexpected null for review URLs.''\<rparr>,
           [QueryReviewUrls (row_id game)])
      | RowsOk \<Rightarrow>
          (let reviewPageUrls = query_review_urls (row_id game) rs
           in if length reviewPageUrls = 0
              then (\<lparr>status = 200,
                     body = GameData (row_title game) (row_steam_app_id game) []\<rparr>,
                    [QueryReviewUrls (row_id game)])
              else (\<lparr>status = 200,
                     body = GameData (row_title game) (row_steam_app_id game)
                              (map (scrapeSteamReview e) reviewPageUrls)\<rparr>,
                    QueryReviewUrls (row_id game) # map HttpGet reviewPageUrls)))"

text \<open>
  \<^verbatim>\<open>app.get('/api/daily-game', ...)\<close> of the server without cache (part_001, lines
  268-351): the response, the store after the request and the events of the request.
\<close>

definition daily_game :: "env \<Rightarrow> string \<Rightarrow> db \<Rightarrow> response \<times> db \<times> event list" where
  "daily_game e todayStr d =
     (case select_daily_game e todayStr (games d) of
        (Rejected, gs, log) \<Rightarrow>
          (\<lparr>status = 500,
            body = ErrorString ''Internal server error while selecting daily game.''\<rparr>,
           d\<lparr>games := gs\<rparr>, log)
      | (Resolved None, gs, log) \<Rightarrow>
          (\<lparr>status = 500, body = ErrorString ''No games available to select for today.''\<rparr>,
           d\<lparr>games := gs\<rparr>, log)
      | (Resolved (Some game), gs, log) \<Rightarrow>
          (let (r, log') = fetchReviewsForGameAndRespond e game (game_reviews d)
           in (r, d\<lparr>games := gs\<rparr>, log @ log')))"

section \<open>The cache-integrated handler\<close>

text \<open>
  The server with the daily game cache (script.js, lines 989-992):
  \<^verbatim>\<open>let dailyGameCache = { date: null, gameData: null }\<close>, a process-wide slot replaced as a
  whole.
\<close>

record daily_cache =
  cache_date :: "string option"
  gameData :: "json_body option"

record server =
  store :: db
  dailyGameCache :: daily_cache

text \<open>\<^verbatim>\<open>gameData.error\<close> as a condition, and \<^verbatim>\<open>gameData.message\<close>.\<close>

fun has_error :: "json_body \<Rightarrow> bool" where
  "has_error (GameData t a rs) = False"
| "has_error (GameDataError m t a rs) = True"
| "has_error (ErrorMarker m) = True"
| "has_error (ErrorString m) = (m \<noteq> [])"

fun message_of :: "json_body \<Rightarrow> string option" where
  "message_of (GameData t a rs) = None"
| "message_of (GameDataError m t a rs) = Some m"
| "message_of (ErrorMarker m) = Some m"
| "message_of (ErrorString m) = None"

text \<open>\<^verbatim>\<open>v || d\<close> on strings.\<close>

definition or_else :: "string option \<Rightarrow> string \<Rightarrow> string" where
  "or_else v d = (if truthy v then the v else d)"

text \<open>
  \<^verbatim>\<open>getAndScrapeReviewDataForGame(gameSelection)\<close> (script.js, lines 1095-1132): it
  returns the data to cache, an error object when the review URLs cannot be read.
\<close>

definition getAndScrapeReviewDataForGame ::
  "env \<Rightarrow> game_row \<Rightarrow> game_review list \<Rightarrow> json_body \<times> event list" where
  "getAndScrapeReviewDataForGame e gameSelection rs =
     (case reviews_outcome e of
        RowsOk \<Rightarrow>
          (let reviewPageUrls = query_review_urls (row_id gameSelection) rs
           in if length reviewPageUrls = 0
              then (GameData (row_title gameSelection) (row_steam_app_id gameSelection) [],
                    [QueryReviewUrls (row_id gameSelection)])
              else (GameData (row_title gameSelection) (row_steam_app_id gameSelection)
                      (map (scrapeSteamReview e) reviewPageUrls),
                    QueryReviewUrls (row_id gameSelection) # map HttpGet reviewPageUrls))
      | _ \<Rightarrow>
          (GameDataError ''Failed to process game reviews.''
             (or_else (Some (row_title gameSelection)) ''Unknown'')
             (if row_steam_app_id gameSelection \<noteq> []
              then Some (row_steam_app_id gameSelection) else None)
             [],
           [QueryReviewUrls (row_id gameSelection)]))"

text \<open>
  \<^verbatim>\<open>app.get('/api/daily-game', ...)\<close> with the cache (script.js, lines 1137-1221): the
  response, the server state after the request and the events of the request.
\<close>

definition daily_game_cached ::
  "env \<Rightarrow> string \<Rightarrow> server \<Rightarrow> response \<times> server \<times> event list" where
  "daily_game_cached e todayStr s =
     (if cache_date (dailyGameCache s) = Some todayStr \<and> gameData (dailyGameCache s) \<noteq> None
      then
       (let cached = the (gameData (dailyGameCache s))
        in if has_error cached
           then (\<lparr>status = 500,
                  body = ErrorString
                    (or_else (message_of cached)
                       ''Failed to get daily game data (cached error).'')\<rparr>, s, [])
           else (\<lparr>status = 200, body = cached\<rparr>, s, []))
      else
       (case select_daily_game e todayStr (games (store s)) of
          (Rejected, gs, log) \<Rightarrow>
            (let gd = ErrorMarker ''Internal server error while selecting daily game.''
             in (\<lparr>status = 500, body = gd\<rparr>,
                 \<lparr>store = (store s)\<lparr>games := gs\<rparr>,
                  dailyGameCache = \<lparr>cache_date = Some todayStr, gameData = Some gd\<rparr>\<rparr>,
                 log))
        | (Resolved None, gs, log) \<Rightarrow>
            (let gd = ErrorMarker ''No games available to select for today.''
             in (\<lparr>status = 500, body = gd\<rparr>,
                 \<lparr>store = (store s)\<lparr>games := gs\<rparr>,
                  dailyGameCache = \<lparr>cache_date = Some todayStr, gameData = Some gd\<rparr>\<rparr>,
                 log))
        | (Resolved (Some game), gs, log) \<Rightarrow>
            (let (fullGameDataWithReviews, log') =
                   getAndScrapeReviewDataForGame e game (game_reviews (store s))
             in ((if has_error fullGameDataWithReviews
                  then \<lparr>status = 500,
                        body = ErrorString
                          (or_else (message_of fullGameDataWithReviews)
                             ''Failed to process reviews for the daily game.'')\<rparr>
                  else \<lparr>status = 200, body = fullGameDataWithReviews\<rparr>),
                 \<lparr>store = (store s)\<lparr>games := gs\<rparr>,
                  dailyGameCache =
                    \<lparr>cache_date = Some todayStr,
                     gameData = Some fullGameDataWithReviews\<rparr>\<rparr>,
                 log @ log'))))"

section \<open>The autocomplete endpoint\<close>

text \<open>
  The autocomplete of part_001, lines 164-264. An entry of the Steam app list; a missing
  name is the empty string.
\<close>

record steam_app =
  app_name :: string
  appid :: int

text \<open>The module variables \<^verbatim>\<open>steamAppsCache\<close> and \<^verbatim>\<open>lastSteamAppsFetchTime\<close>.\<close>

record autocomplete =
  steamAppsCache :: "steam_app list"
  lastSteamAppsFetchTime :: int

text \<open>
  What a search request takes from outside: \<^verbatim>\<open>Date.now()\<close> at its start, the app list the
  Steam API returns (\<open>None\<close> when the fetch fails or the data has no list),
  \<^verbatim>\<open>Date.now()\<close> when the list arrives, and the platform's \<^verbatim>\<open>localeCompare\<close>.
\<close>

record search_env =
  now :: int
  steam_api :: "steam_app list option"
  fetched_at :: int
  localeCompare :: "string \<Rightarrow> string \<Rightarrow> int"

definition STEAM_APPS_CACHE_DURATION :: int where
  "STEAM_APPS_CACHE_DURATION = 24 * 60 * 60 * 1000"

definition NON_GAME_KEYWORDS :: "string list" where
  "NON_GAME_KEYWORDS =
     [''dlc'', ''soundtrack'', ''ost'', ''artbook'', ''art book'', ''expansion'',
      ''pack'', ''demo'', ''beta'', ''playtest'', ''bonus'', ''season pass'',
      ''skin'', ''wallpaper'', ''trailer'', ''key'', ''server'', ''dedicated server'',
      ''sdk'', ''tool'', ''editor'', ''trial'', ''vr edition'']"

text \<open>
  \<^verbatim>\<open>toLowerCase\<close>: the capital letters of Latin-1 are A to Z and U+00C0 to U+00DE without
  the multiplication sign U+00D7; each has its small letter 32 places further.
\<close>

definition toLowerCase :: "string \<Rightarrow> string" where
  "toLowerCase s =
     map (\<lambda>c. if (CHR ''A'' \<le> c \<and> c \<le> CHR ''Z'')
                  \<or> (CHR 0xC0 \<le> c \<and> c \<le> CHR 0xDE \<and> c \<noteq> CHR 0xD7)
              then char_of (of_char c + (32::nat)) else c) s"

text \<open>\<^verbatim>\<open>str.toLowerCase().replace(/[^a-z0-9]/gi, '')\<close>\<close>

definition normalizeStringServer :: "string \<Rightarrow> string" where
  "normalizeStringServer str =
     filter (\<lambda>c. (CHR ''a'' \<le> c \<and> c \<le> CHR ''z'') \<or> (CHR ''0'' \<le> c \<and> c \<le> CHR ''9''))
       (toLowerCase str)"

text \<open>
  \<^verbatim>\<open>.filter((app, index, self) => index === self.findIndex((t) => t.name === app.name))\<close>:
  the first app of each name.
\<close>

fun unique_names :: "string list \<Rightarrow> steam_app list \<Rightarrow> steam_app list" where
  "unique_names seen [] = []"
| "unique_names seen (a # as) =
     (if app_name a \<in> set seen then unique_names seen as
      else a # unique_names (app_name a # seen) as)"

text \<open>
  \<^verbatim>\<open>Array.prototype.sort\<close> with a comparator, as a stable insertion sort; the engine's
  sort is stable too, and gives this list whenever the comparator is a consistent order.
\<close>

fun insert_sorted :: "('a \<Rightarrow> 'a \<Rightarrow> int) \<Rightarrow> 'a \<Rightarrow> 'a list \<Rightarrow> 'a list" where
  "insert_sorted cmp x [] = [x]"
| "insert_sorted cmp x (y # ys) =
     (if cmp x y \<le> 0 then x # y # ys else y # insert_sorted cmp x ys)"

definition js_sort :: "('a \<Rightarrow> 'a \<Rightarrow> int) \<Rightarrow> 'a list \<Rightarrow> 'a list" where
  "js_sort cmp xs = foldr (insert_sorted cmp) xs []"

text \<open>\<^verbatim>\<open>fetchAndCacheSteamApps()\<close>: on any failure the cache stays as it is.\<close>

definition fetchAndCacheSteamApps :: "search_env \<Rightarrow> autocomplete \<Rightarrow> autocomplete" where
  "fetchAndCacheSteamApps env st =
     (case steam_api env of
        None \<Rightarrow> st
      | Some rawApps \<Rightarrow>
          \<lparr>steamAppsCache =
             js_sort (\<lambda>a b. localeCompare env (app_name a) (app_name b))
               (unique_names []
                 (filter
                   (\<lambda>app. app_name app \<noteq> [] \<and> trim (app_name app) \<noteq> [] \<and>
                      \<not> list_ex (\<lambda>keyword. str_includes (toLowerCase (app_name app)) keyword)
                          NON_GAME_KEYWORDS)
                   rawApps)),
           lastSteamAppsFetchTime = fetched_at env\<rparr>)"

text \<open>
  \<^verbatim>\<open>parseInt(s, 10)\<close>: leading white space, a sign, then the longest run of digits;
  \<open>None\<close> is \<^verbatim>\<open>NaN\<close>.
\<close>

definition is_digit :: "char \<Rightarrow> bool" where
  "is_digit c = (CHR ''0'' \<le> c \<and> c \<le> CHR ''9'')"

definition parseInt10 :: "string \<Rightarrow> int option" where
  "parseInt10 s =
     (let s1 = dropWhile is_space s;
          negative = (s1 \<noteq> [] \<and> hd s1 = CHR ''-'');
          s2 = (if s1 \<noteq> [] \<and> hd s1 \<in> {CHR ''-'', CHR ''+''} then tl s1 else s1);
          ds = takeWhile is_digit s2;
          n = foldl (\<lambda>acc c. 10 * acc + (int (of_char c) - 48)) 0 ds
      in if ds = [] then None else Some (if negative then - n else n))"

text \<open>\<^verbatim>\<open>.slice(0, limit)\<close>; a negative limit counts from the end.\<close>

definition slice_0 :: "int \<Rightarrow> 'a list \<Rightarrow> 'a list" where
  "slice_0 limit xs =
     (if limit < 0 then take (nat (int (length xs) + limit)) xs else take (nat limit) xs)"

text \<open>The comparator of the suggestions: names that start with the term first.\<close>

definition suggestion_order ::
  "(string \<Rightarrow> string \<Rightarrow> int) \<Rightarrow> string \<Rightarrow> string \<times> string \<Rightarrow> string \<times> string \<Rightarrow> int" where
  "suggestion_order cmp normalizedSearchTerm a b =
     (let aStartsWith = startsWith (snd a) normalizedSearchTerm;
          bStartsWith = startsWith (snd b) normalizedSearchTerm
      in if aStartsWith \<and> \<not> bStartsWith then - 1
         else if \<not> aStartsWith \<and> bStartsWith then 1
         else cmp (snd a) (snd b))"

text \<open>
  \<^verbatim>\<open>app.get('/api/search-steam-games', ...)\<close>: the JSON array sent and the module
  variables after the request. \<open>term_param\<close> and \<open>limit_param\<close> are
  \<^verbatim>\<open>req.query.term\<close> and \<^verbatim>\<open>req.query.limit\<close>, \<open>None\<close> when missing.
\<close>

definition search_steam_games ::
  "search_env \<Rightarrow> autocomplete \<Rightarrow> string option \<Rightarrow> string option
     \<Rightarrow> string list \<times> autocomplete" where
  "search_steam_games env st term_param limit_param =
     (let st' = (if length (steamAppsCache st) = 0
                    \<or> now env - lastSteamAppsFetchTime st > STEAM_APPS_CACHE_DURATION
                 then fetchAndCacheSteamApps env st else st);
          searchTermRaw = (if truthy term_param then trim (the term_param) else []);
          parsed = (case limit_param of None \<Rightarrow> None | Some l \<Rightarrow> parseInt10 l);
          limit = (case parsed of None \<Rightarrow> 15 | Some n \<Rightarrow> if n = 0 then 15 else n)
      in if searchTermRaw = [] \<or> length searchTermRaw < 2 then ([], st')
         else
          (let normalizedSearchTerm = normalizeStringServer searchTermRaw;
               suggestions =
                 map fst
                   (slice_0 limit
                     (js_sort (suggestion_order (localeCompare env) normalizedSearchTerm)
                       (filter (\<lambda>app. str_includes (snd app) normalizedSearchTerm)
                         (map (\<lambda>app. (app_name app, normalizeStringServer (app_name app)))
                            (steamAppsCache st')))))
           in (suggestions, st')))"

section \<open>Runs, and the inputs of the examples\<close>








definition store_answers :: "env \<Rightarrow> bool" where
  "store_answers e = (\<not> err_A e \<and> \<not> err_B e \<and> \<not> err_C e \<and> \<not> err_D e)"

text \<open>A store that answers every statement, random values all equal, and no network.\<close>

definition quiet_env :: env where
  "quiet_env =
     \<lparr>err_A = False, err_B = False, err_C = False, err_D = False,
      random_B = (\<lambda>g. 0), random_C = (\<lambda>g. 0), reviews_outcome = RowsOk,
      http_get = (\<lambda>u. None), html_text = (\<lambda>s. s)\<rparr>"

definition portal_2 :: game where
  "portal_2 =
     \<lparr>gid = 1, title = ''Portal 2'', steam_app_id = ''620'', last_played_on = None,
      is_active = True\<rparr>"

definition one_game_db :: db where
  "one_game_db = \<lparr>games = [portal_2], game_reviews = []\<rparr>"

text \<open>A catalog whose two entries have both been played, and its clue sources.\<close>

definition doom :: game where
  "doom =
     \<lparr>gid = 2, title = ''Doom'', steam_app_id = ''379720'',
      last_played_on = Some ''2024-04-29'', is_active = True\<rparr>"

definition portal_2_played :: game where
  "portal_2_played = portal_2\<lparr>last_played_on := Some ''2024-04-30''\<rparr>"

definition two_played :: "game list" where
  "two_played = [portal_2_played, doom]"

definition played_db :: db where
  "played_db =
     \<lparr>games = two_played,
      game_reviews =
        [\<lparr>game_id = 1, review_page_url = ''https://steamcommunity.com/id/b/recommended/620/'',
          clue_order = 2\<rparr>,
         \<lparr>game_id = 2,
          review_page_url = ''https://steamcommunity.com/id/c/recommended/379720/'',
          clue_order = 1\<rparr>,
         \<lparr>game_id = 1, review_page_url = ''https://steamcommunity.com/id/a/recommended/620/'',
          clue_order = 1\<rparr>]\<rparr>"

text \<open>A review page on which only the name, the stance and the text are found.\<close>

definition sparse_page :: page where
  "sparse_page =
     \<lparr>persona_name_text = '' Bob '', header_name_text = '''',
      avatar_last_child_src = None, avatar_second_img_src = None,
      rating_summary_text = ''Recommended'',
      play_time_text = '' '',
      recommendation_date_text = '''', review_text_html = Some ''Great<br/>game''\<rparr>"

definition one_page_env :: env where
  "one_page_env =
     quiet_env\<lparr>http_get := (\<lambda>u. if u = ''https://steamcommunity.com/id/a/recommended/620/''
                                then Some sparse_page else None)\<rparr>"





text \<open>The store of one entry never played with its clue sources, and the same once marked.\<close>

definition portal_db :: db where
  "portal_db = \<lparr>games = [portal_2], game_reviews = game_reviews played_db\<rparr>"

definition portal_db_marked :: db where
  "portal_db_marked =
     \<lparr>games = [portal_2\<lparr>last_played_on := Some ''2024-05-01''\<rparr>],
      game_reviews = game_reviews played_db\<rparr>"


text \<open>
  A fetched page whose date element holds only its label and whose review body is blank,
  served for every URL.
\<close>

definition label_only_page :: page where
  "label_only_page =
     \<lparr>persona_name_text = ''Bob'', header_name_text = '''',
      avatar_last_child_src = None, avatar_second_img_src = None,
      rating_summary_text = ''Recommended'',
      play_time_text = ''1.0 hrs last two weeks / 12.3 hrs on record (4.5 hrs at review time)'',
      recommendation_date_text = ''Posted: '', review_text_html = Some '' ''\<rparr>"

definition label_only_env :: env where
  "label_only_env = quiet_env\<lparr>http_get := (\<lambda>u. Some label_only_page)\<rparr>"

text \<open>A server that has not served a daily game yet.\<close>

definition fresh_server :: server where
  "fresh_server =
     \<lparr>store = one_game_db, dailyGameCache = \<lparr>cache_date = None, gameData = None\<rparr>\<rparr>"

text \<open>An app list fetched a second ago, and a request that needs no fetch.\<close>

definition byte_order :: "string \<Rightarrow> string \<Rightarrow> int" where
  "byte_order a b = (if a < b then - 1 else if a = b then 0 else 1)"

definition warm_autocomplete :: autocomplete where
  "warm_autocomplete =
     \<lparr>steamAppsCache = [\<lparr>app_name = ''Doom'', appid = 379720\<rparr>,
                        \<lparr>app_name = ''Portal 2'', appid = 620\<rparr>],
      lastSteamAppsFetchTime = 1000\<rparr>"

definition idle_search_env :: search_env where
  "idle_search_env =
     \<lparr>now = 2000, steam_api = None, fetched_at = 2000, localeCompare = byte_order\<rparr>"

section \<open>Facts about the queries\<close>

lemma order_by_limit_1_None: "order_by_limit_1 k xs = None \<longleftrightarrow> xs = []"
  by (induction xs) (auto split: option.splits)

lemma order_by_limit_1_mem: "order_by_limit_1 k xs = Some m \<Longrightarrow> m \<in> set xs"
  by (induction xs arbitrary: m) (auto split: option.splits if_splits)

lemma order_by_limit_1_le: "order_by_limit_1 k xs = Some m \<Longrightarrow> x \<in> set xs \<Longrightarrow> k m \<le> k x"
  by (induction xs arbitrary: m) (auto split: option.splits if_splits simp: order_by_limit_1_None)


lemma query_preselected_Some:
  "query_preselected t gs = Some r \<Longrightarrow>
     \<exists>g\<in>set gs. r = select_row g \<and> is_active g \<and> last_played_on g = Some t"
  unfolding query_preselected_def by (auto simp: find_Some_iff)


lemma query_unplayed_Some:
  "query_unplayed rnd gs = Some r \<Longrightarrow>
     \<exists>g\<in>set gs. r = select_row g \<and> is_active g \<and> last_played_on g = None"
  unfolding query_unplayed_def by (fastforce dest: order_by_limit_1_mem)


lemma query_least_recent_Some:
  assumes "query_least_recent rnd gs = Some r"
  shows "\<exists>g\<in>set gs. r = select_row g \<and> is_active g \<and>
           (\<forall>g'\<in>set gs. is_active g' \<longrightarrow> last_played_on g \<le> last_played_on g')"
proof -
  from assms obtain g where
    g: "order_by_limit_1 (\<lambda>g. (last_played_on g, rnd g)) (filter is_active gs) = Some g"
    and r: "r = select_row g"
    unfolding query_least_recent_def by auto
  from order_by_limit_1_mem[OF g] have "g \<in> set gs" "is_active g" by auto
  moreover have "last_played_on g \<le> last_played_on g'" if "g' \<in> set gs" "is_active g'" for g'
  proof -
    from that have "g' \<in> set (filter is_active gs)" by simp
    from order_by_limit_1_le[OF g this] show ?thesis
      by (auto simp: less_eq_prod_def)
  qed
  ultimately show ?thesis using r by blast
qed

lemma query_least_recent_None:
  "query_least_recent rnd gs = None \<longleftrightarrow> (\<forall>g\<in>set gs. \<not> is_active g)"
  unfolding query_least_recent_def by (auto simp: order_by_limit_1_None filter_empty_conv)

section \<open>Facts about the selector\<close>

lemma map_gid_update [simp]: "map gid (update_last_played_on t i gs) = map gid gs"
  by (induction gs) (auto simp: update_last_played_on_def)


lemma select_daily_game_row:
  assumes "select_daily_game e t gs = (Resolved (Some r), gs', log)"
  shows "\<exists>g\<in>set gs. r = select_row g \<and> is_active g"
  using assms unfolding select_daily_game_def block_D_def
  by (auto split: if_splits option.splits
      dest!: query_preselected_Some query_unplayed_Some query_least_recent_Some)




lemma select_daily_game_write_fails:
  assumes "select_daily_game (e\<lparr>err_D := False\<rparr>) t gs = (Resolved (Some g), gs', log)"
      and "UpdateLastPlayed (row_id g) \<in> set log"
      and "err_D e"
  shows "select_daily_game e t gs = (Rejected, gs, log)"
  using assms unfolding select_daily_game_def block_D_def
  by (auto split: if_splits option.splits)

section \<open>A failing write of the selection\<close>

text \<open>
  Claim C2 says that when Block D's write fails the selected entry is still served as a
  successful payload. The handler does not do that: the promise of Block D rejects, the
  \<^verbatim>\<open>catch\<close> block answers 500. Here the only entry of the catalog is picked by Block B,
  the write fails, and the response is the error.
\<close>

theorem write_failure_not_degraded_counterexample:
  "query_unplayed (random_B quiet_env) (games one_game_db) = Some (select_row portal_2) \<and>
   fst (daily_game (quiet_env\<lparr>err_D := True\<rparr>) ''2024-05-01'' one_game_db) =
     \<lparr>status = 500, body = ErrorString ''Internal server error while selecting daily game.''\<rparr>"
  by (simp add: daily_game_def select_daily_game_def block_D_def query_preselected_def
      query_unplayed_def quiet_env_def one_game_db_def portal_2_def select_row_def)

text \<open>
  Claim C2, amended: if the selector picks a new entry (with a working write it would select
  \<open>g\<close> and write its date) and the write fails, the request is answered with status 500 and
  the body \<^verbatim>\<open>{error: "Internal server error while selecting daily game."}\<close>; the store is
  unchanged and no review is read.
\<close>

theorem write_failure_answers_500:
  assumes "select_daily_game (e\<lparr>err_D := False\<rparr>) todayStr (games d)
             = (Resolved (Some g), gs', log)"
      and "UpdateLastPlayed (row_id g) \<in> set log"
      and "err_D e"
  shows "daily_game e todayStr d =
           (\<lparr>status = 500,
             body = ErrorString ''Internal server error while selecting daily game.''\<rparr>,
            d, log)"
  using select_daily_game_write_fails[OF assms] by (simp add: daily_game_def)

theorem write_failure_answers_500_witness:
  "select_daily_game (quiet_env\<lparr>err_D := True, err_D := False\<rparr>) ''2024-05-01''
       (games one_game_db)
     = (Resolved (Some (select_row portal_2)),
        update_last_played_on ''2024-05-01'' 1 [portal_2],
        [QueryPreselected, QueryUnplayed, UpdateLastPlayed 1]) \<and>
   daily_game (quiet_env\<lparr>err_D := True\<rparr>) ''2024-05-01'' one_game_db =
     (\<lparr>status = 500,
       body = ErrorString ''Internal server error while selecting daily game.''\<rparr>,
      one_game_db, [QueryPreselected, QueryUnplayed, UpdateLastPlayed 1])"
proof -
  have sel: "select_daily_game (quiet_env\<lparr>err_D := True, err_D := False\<rparr>) ''2024-05-01''
       (games one_game_db)
     = (Resolved (Some (select_row portal_2)),
        update_last_played_on ''2024-05-01'' 1 [portal_2],
        [QueryPreselected, QueryUnplayed, UpdateLastPlayed 1])"
    by (simp add: select_daily_game_def block_D_def query_preselected_def
      query_unplayed_def quiet_env_def one_game_db_def portal_2_def select_row_def)
  have mem: "UpdateLastPlayed (row_id (select_row portal_2))
      \<in> set [QueryPreselected, QueryUnplayed, UpdateLastPlayed 1]"
    by (simp add: select_row_def portal_2_def)
  have "err_D (quiet_env\<lparr>err_D := True\<rparr>)" by simp
  from write_failure_answers_500[OF sel mem this] sel show ?thesis by simp
qed

section \<open>An entry without clue sources\<close>

text \<open>
  Claim C6: when the selected entry has no clue-source reference, the list of review URLs
  is empty and the handler answers 200 with \<^verbatim>\<open>{title, appId, reviews: []}\<close>; the only
  statement after the selection is the query of the URLs.
\<close>

theorem empty_clue_list_answers_200:
  assumes "select_daily_game e todayStr (games d) = (Resolved (Some g), gs', log)"
      and "reviews_outcome e = RowsOk"
      and "filter (\<lambda>r. game_id r = row_id g) (game_reviews d) = []"
  shows "query_review_urls (row_id g) (game_reviews d) = [] \<and>
         daily_game e todayStr d =
           (\<lparr>status = 200, body = GameData (row_title g) (row_steam_app_id g) []\<rparr>,
            d\<lparr>games := gs'\<rparr>, log @ [QueryReviewUrls (row_id g)])"
  using assms
  by (simp add: daily_game_def fetchReviewsForGameAndRespond_def query_review_urls_def)

theorem empty_clue_list_answers_200_witness:
  "daily_game quiet_env ''2024-05-01'' one_game_db =
     (\<lparr>status = 200, body = GameData ''Portal 2'' ''620'' []\<rparr>,
      one_game_db\<lparr>games := [portal_2\<lparr>last_played_on := Some ''2024-05-01''\<rparr>]\<rparr>,
      [QueryPreselected, QueryUnplayed, UpdateLastPlayed 1, QueryReviewUrls 1])"
proof -
  have sel: "select_daily_game quiet_env ''2024-05-01'' (games one_game_db)
     = (Resolved (Some (select_row portal_2)),
        [portal_2\<lparr>last_played_on := Some ''2024-05-01''\<rparr>],
        [QueryPreselected, QueryUnplayed, UpdateLastPlayed 1])"
    by (simp add: select_daily_game_def block_D_def query_preselected_def
      query_unplayed_def quiet_env_def one_game_db_def portal_2_def select_row_def
      update_last_played_on_def)
  have ok: "reviews_outcome quiet_env = RowsOk" by (simp add: quiet_env_def)
  have none: "filter (\<lambda>r. game_id r = row_id (select_row portal_2))
      (game_reviews one_game_db) = []"
    by (simp add: one_game_db_def)
  from empty_clue_list_answers_200[OF sel ok none] show ?thesis
    by (simp add: select_row_def portal_2_def)
qed

section \<open>Facts about the handler without cache\<close>

lemma fetchReviews_body:
  assumes "fetchReviewsForGameAndRespond e g rs = (r, log)" "body r = GameData t a cs"
  shows "reviews_outcome e = RowsOk \<and> status r = 200 \<and> t = row_title g \<and> a = row_steam_app_id g \<and>
         cs = map (scrapeSteamReview e) (query_review_urls (row_id g) rs)"
  using assms unfolding fetchReviewsForGameAndRespond_def
  by (auto split: rows_outcome.splits if_splits simp: Let_def)

lemma daily_game_body:
  assumes "daily_game e t d = (r, d', log)" "body r = GameData ti a cs"
  shows "\<exists>g gs' l1. select_daily_game e t (games d) = (Resolved (Some g), gs', l1) \<and>
          ti = row_title g \<and> a = row_steam_app_id g \<and> status r = 200 \<and>
          cs = map (scrapeSteamReview e) (query_review_urls (row_id g) (game_reviews d))"
proof (cases "select_daily_game e t (games d)")
  case (fields res gs' l1)
  show ?thesis
  proof (cases res)
    case Rejected
    with fields assms show ?thesis by (auto simp: daily_game_def)
  next
    case (Resolved x)
    show ?thesis
    proof (cases x)
      case None
      with Resolved fields assms show ?thesis by (auto simp: daily_game_def)
    next
      case (Some g)
      obtain r1 l2 where f: "fetchReviewsForGameAndRespond e g (game_reviews d) = (r1, l2)"
        by (cases "fetchReviewsForGameAndRespond e g (game_reviews d)")
      with Some Resolved fields assms have "r1 = r" by (simp add: daily_game_def)
      with fetchReviews_body[OF f] assms(2) Some Resolved fields show ?thesis by simp
    qed
  qed
qed

lemmas ex_defs = played_db_def two_played_def portal_2_played_def portal_2_def doom_def
  quiet_env_def select_row_def

lemma run_played:
  "daily_game quiet_env ''2024-04-30'' played_db =
     (\<lparr>status = 200,
       body = GameData ''Portal 2'' ''620''
         [Failure True ''Scraping failed'' ''https://steamcommunity.com/id/a/recommended/620/'' ''Error'',
          Failure True ''Scraping failed'' ''https://steamcommunity.com/id/b/recommended/620/'' ''Error'']\<rparr>,
      played_db,
      [QueryPreselected, QueryReviewUrls 1,
       HttpGet ''https://steamcommunity.com/id/a/recommended/620/'',
       HttpGet ''https://steamcommunity.com/id/b/recommended/620/''])"
  by (simp add: daily_game_def select_daily_game_def query_preselected_def
      fetchReviewsForGameAndRespond_def query_review_urls_def scrapeSteamReview_def ex_defs)


section \<open>Writes of one request and of one day\<close>




















section \<open>Length and order of the reviews\<close>

text \<open>
  Claim C7: the reviews of a successful payload are the clue records of the selected
  entry's stored references, sorted by clue order and cut to the first six, one record for
  each reference in that order; so there are as many as references stored, six at most.
\<close>

theorem reviews_follow_stored_clue_order:
  assumes "daily_game e todayStr d = (r, d', log)" and "body r = GameData t a cs"
  shows "\<exists>g\<in>set (games d). is_active g \<and> t = title g \<and> a = steam_app_id g \<and>
          (let stored = filter (\<lambda>x. game_id x = gid g) (game_reviews d);
               refs = take 6 (sort_key clue_order stored)
           in sorted (map clue_order refs) \<and>
              cs = map (\<lambda>x. scrapeSteamReview e (review_page_url x)) refs \<and>
              length cs = min 6 (length stored)) \<and>
          length cs \<le> 6"
proof -
  from daily_game_body[OF assms] obtain g gs' l1 where
    sel: "select_daily_game e todayStr (games d) = (Resolved (Some g), gs', l1)"
    and t: "t = row_title g" "a = row_steam_app_id g"
    and cs: "cs = map (scrapeSteamReview e) (query_review_urls (row_id g) (game_reviews d))"
    by blast
  from select_daily_game_row[OF sel] obtain g0 where
    g0: "g0 \<in> set (games d)" "g = select_row g0" "is_active g0" by blast
  have "sorted (map clue_order (take 6 (sort_key clue_order xs)))" for xs :: "game_review list"
    by (simp add: sorted_wrt_take flip: take_map)
  with g0 t cs show ?thesis
    by (intro bexI[of _ g0]) (simp_all add: select_row_def query_review_urls_def Let_def comp_def min.commute)
qed

theorem reviews_follow_stored_clue_order_witness:
  "daily_game quiet_env ''2024-04-30'' played_db =
     (\<lparr>status = 200,
       body = GameData ''Portal 2'' ''620''
         [Failure True ''Scraping failed''
            ''https://steamcommunity.com/id/a/recommended/620/'' ''Error'',
          Failure True ''Scraping failed''
            ''https://steamcommunity.com/id/b/recommended/620/'' ''Error'']\<rparr>,
      played_db,
      [QueryPreselected, QueryReviewUrls 1,
       HttpGet ''https://steamcommunity.com/id/a/recommended/620/'',
       HttpGet ''https://steamcommunity.com/id/b/recommended/620/''])"
proof -
  have b: "body \<lparr>status = 200,
       body = GameData ''Portal 2'' ''620''
         [Failure True ''Scraping failed''
            ''https://steamcommunity.com/id/a/recommended/620/'' ''Error'',
          Failure True ''Scraping failed''
            ''https://steamcommunity.com/id/b/recommended/620/'' ''Error'']\<rparr> =
      GameData ''Portal 2'' ''620''
         [Failure True ''Scraping failed''
            ''https://steamcommunity.com/id/a/recommended/620/'' ''Error'',
          Failure True ''Scraping failed''
            ''https://steamcommunity.com/id/b/recommended/620/'' ''Error'']"
    by simp
  from reviews_follow_stored_clue_order[OF run_played b] run_played show ?thesis by simp
qed

section \<open>Rotation once every entry has been played\<close>



section \<open>Facts about the scraper\<close>

text \<open>Each group of statements of the scraper changes its own field only.\<close>

lemma scrape_reviewerName_frame:
  "reviewerAvatarUrl (scrape_reviewerName p r) = reviewerAvatarUrl r"
  "recommendation (scrape_reviewerName p r) = recommendation r"
  "playtime (scrape_reviewerName p r) = playtime r"
  "datePosted (scrape_reviewerName p r) = datePosted r"
  "reviewText (scrape_reviewerName p r) = reviewText r"
  by (simp_all add: scrape_reviewerName_def Let_def)

lemma scrape_reviewerAvatarUrl_frame:
  "reviewerName (scrape_reviewerAvatarUrl p r) = reviewerName r"
  "recommendation (scrape_reviewerAvatarUrl p r) = recommendation r"
  "playtime (scrape_reviewerAvatarUrl p r) = playtime r"
  "datePosted (scrape_reviewerAvatarUrl p r) = datePosted r"
  "reviewText (scrape_reviewerAvatarUrl p r) = reviewText r"
  by (simp_all add: scrape_reviewerAvatarUrl_def Let_def)

lemma scrape_recommendation_frame:
  "reviewerName (scrape_recommendation p r) = reviewerName r"
  "reviewerAvatarUrl (scrape_recommendation p r) = reviewerAvatarUrl r"
  "playtime (scrape_recommendation p r) = playtime r"
  "datePosted (scrape_recommendation p r) = datePosted r"
  "reviewText (scrape_recommendation p r) = reviewText r"
  by (simp_all add: scrape_recommendation_def Let_def)

lemma scrape_playtime_frame:
  "reviewerName (scrape_playtime p r) = reviewerName r"
  "reviewerAvatarUrl (scrape_playtime p r) = reviewerAvatarUrl r"
  "recommendation (scrape_playtime p r) = recommendation r"
  "datePosted (scrape_playtime p r) = datePosted r"
  "reviewText (scrape_playtime p r) = reviewText r"
  by (simp_all add: scrape_playtime_def Let_def split: option.splits)

lemma scrape_datePosted_frame:
  "reviewerName (scrape_datePosted p r) = reviewerName r"
  "reviewerAvatarUrl (scrape_datePosted p r) = reviewerAvatarUrl r"
  "recommendation (scrape_datePosted p r) = recommendation r"
  "playtime (scrape_datePosted p r) = playtime r"
  "reviewText (scrape_datePosted p r) = reviewText r"
  by (simp_all add: scrape_datePosted_def Let_def)

lemma scrape_reviewText_frame:
  "reviewerName (scrape_reviewText t p r) = reviewerName r"
  "reviewerAvatarUrl (scrape_reviewText t p r) = reviewerAvatarUrl r"
  "recommendation (scrape_reviewText t p r) = recommendation r"
  "playtime (scrape_reviewText t p r) = playtime r"
  "datePosted (scrape_reviewText t p r) = datePosted r"
  by (simp_all add: scrape_reviewText_def)

lemmas scrape_frame = scrape_reviewerName_frame scrape_reviewerAvatarUrl_frame
  scrape_recommendation_frame scrape_playtime_frame scrape_datePosted_frame
  scrape_reviewText_frame

lemma parse_reviewerName:
  "reviewerName (parse_review_page t p) =
     (if trim (persona_name_text p) \<noteq> [] then trim (persona_name_text p)
      else if trim (header_name_text p) \<noteq> [] then trim (header_name_text p)
      else ''A Steam User'')"
  by (simp add: parse_review_page_def scrape_frame)
     (simp add: scrape_reviewerName_def default_reviewData_def Let_def scrape_frame)

lemma parse_reviewerAvatarUrl:
  "reviewerAvatarUrl (parse_review_page t p) =
     (if truthy (avatar_last_child_src p) then avatar_last_child_src p
      else if truthy (avatar_second_img_src p) then avatar_second_img_src p
      else None)"
  by (simp add: parse_review_page_def scrape_frame)
     (simp add: scrape_reviewerAvatarUrl_def default_reviewData_def Let_def scrape_frame)

lemma parse_recommendation:
  "recommendation (parse_review_page t p) =
     (if trim (rating_summary_text p) \<noteq> [] then trim (rating_summary_text p)
      else ''Not specified'')"
  by (simp add: parse_review_page_def scrape_frame)
     (simp add: scrape_recommendation_def default_reviewData_def Let_def scrape_frame)

lemma parse_playtime:
  "playtime (parse_review_page t p) = playtime (scrape_playtime p default_reviewData)"
  by (simp add: parse_review_page_def scrape_frame)
     (simp add: scrape_playtime_def default_reviewData_def Let_def scrape_frame split: option.splits)

lemma scrape_playtime_default:
  assumes "match_at_review_time (trim (play_time_text p)) = None"
      and "\<not> truthy (fallbackPlaytime (trim (play_time_text p)))"
  shows "playtime (scrape_playtime p default_reviewData) = ''Playtime not shown''"
  using assms by (simp add: scrape_playtime_def default_reviewData_def Let_def)

lemma blank_playtime:
  "match_at_review_time [] = None" "\<not> truthy (fallbackPlaytime [])"
  by (simp_all add: fallbackPlaytime_def split_1_def truthy_def)

lemma parse_datePosted:
  "datePosted (parse_review_page t p) =
     (if remove_first ''Posted: '' (trim (recommendation_date_text p)) \<noteq> []
      then remove_first ''Posted: '' (trim (recommendation_date_text p))
      else ''Date not found'')"
  by (simp add: parse_review_page_def scrape_frame)
     (simp add: scrape_datePosted_def default_reviewData_def Let_def scrape_frame)

lemma parse_reviewText:
  "reviewText (parse_review_page t p) =
     (if truthy (review_text_html p) then trim (t (replace_br (the (review_text_html p))))
      else ''Could not load review text.'')"
  by (simp add: parse_review_page_def scrape_frame)
     (simp add: scrape_reviewText_def default_reviewData_def scrape_frame)

lemma parse_sparse: "parse_review_page (\<lambda>s. s) sparse_page =
  \<lparr>reviewerName = ''Bob'', reviewerAvatarUrl = None, recommendation = ''Recommended'',
    playtime = ''Playtime not shown'', datePosted = ''Date not found'', reviewText = ''Great\<newline>game''\<rparr>"
  by (simp add: parse_review_page_def scrape_reviewText_def scrape_datePosted_def
      scrape_playtime_def scrape_recommendation_def scrape_reviewerAvatarUrl_def
      scrape_reviewerName_def default_reviewData_def sparse_page_def truthy_def
      trim_def is_space_def at_review_time_here_def remove_first_def
      replace_br_def br_tag_length_def startsWith_def)

section \<open>The parser's fields\<close>

text \<open>
  The at-review-time phrase is found wherever it stands after the first opening
  parenthesis, and the playtime is a function of the playtime text alone.
\<close>

lemma at_review_time_here_found:
  assumes "CHR '')'' \<notin> set cap" "cap \<noteq> []"
  shows "at_review_time_here (cap @ '' at review time)'' @ b) = Some cap"
proof -
  have tw: "takeWhile (\<lambda>c. c \<noteq> CHR '')'') (cap @ '' at review time)'' @ b)
      = cap @ '' at review time''"
  proof -
    have "\<And>x. x \<in> set cap \<Longrightarrow> x \<noteq> CHR '')''" using assms(1) by auto
    from takeWhile_append2[of cap "\<lambda>c. c \<noteq> CHR '')''", OF this] show ?thesis by simp
  qed
  show ?thesis
    unfolding at_review_time_here_def tw using assms(2) by (simp add: Let_def)
qed

lemma match_at_review_time_found:
  assumes "CHR ''('' \<notin> set a" "CHR '')'' \<notin> set cap" "cap \<noteq> []"
  shows "match_at_review_time (a @ ''('' @ cap @ '' at review time)'' @ b) = Some cap"
  using assms(1)
proof (induction a)
  case Nil
  from at_review_time_here_found[OF assms(2,3), of b] show ?case by simp
next
  case (Cons c a)
  then show ?case by auto
qed

lemma match_at_review_time_no_paren:
  "CHR ''('' \<notin> set s \<Longrightarrow> match_at_review_time s = None"
  by (induction s) auto

lemma parse_playtime_explicit:
  "playtime (parse_review_page t p) =
     (let playTimeText = trim (play_time_text p)
      in case match_at_review_time playTimeText of
           Some cap \<Rightarrow> cap
         | None \<Rightarrow>
             if playTimeText \<noteq> [] \<and> truthy (fallbackPlaytime playTimeText)
             then (let fb = the (fallbackPlaytime playTimeText);
                       pt = (if str_includes fb ''hrs'' then fb else fb @ '' hrs'')
                   in if pt = ''hrs'' then ''Playtime not shown'' else pt)
             else ''Playtime not shown'')"
  unfolding parse_playtime
  by (simp add: scrape_playtime_def default_reviewData_def Let_def startsWith_def
      split: option.splits)

text \<open>
  For a page that was fetched, the scraper returns a review record (never the failure
  object), and each of its six fields is a function of that field's own selectors alone:
  the value found, else the field's default. Not found means: no text after trimming for
  the name and the stance, no attribute for the avatar, neither the at-review-time phrase
  nor the on-record phrase for the playtime, nothing left of the trimmed date text once
  \<^verbatim>\<open>Posted: \<close> is removed, no inner HTML for the body.
\<close>

lemma parser_fields_follow_own_selectors:
  assumes "http_get e url = Some p"
  shows "\<exists>rd. scrapeSteamReview e url = Review rd \<and>
     reviewerName rd =
       (if trim (persona_name_text p) \<noteq> [] then trim (persona_name_text p)
        else if trim (header_name_text p) \<noteq> [] then trim (header_name_text p)
        else ''A Steam User'') \<and>
     reviewerAvatarUrl rd =
       (if truthy (avatar_last_child_src p) then avatar_last_child_src p
        else if truthy (avatar_second_img_src p) then avatar_second_img_src p
        else None) \<and>
     recommendation rd =
       (if trim (rating_summary_text p) \<noteq> [] then trim (rating_summary_text p)
        else ''Not specified'') \<and>
     playtime rd =
       (let playTimeText = trim (play_time_text p)
        in case match_at_review_time playTimeText of
             Some cap \<Rightarrow> cap
           | None \<Rightarrow>
               if playTimeText \<noteq> [] \<and> truthy (fallbackPlaytime playTimeText)
               then (let fb = the (fallbackPlaytime playTimeText);
                         pt = (if str_includes fb ''hrs'' then fb else fb @ '' hrs'')
                     in if pt = ''hrs'' then ''Playtime not shown'' else pt)
               else ''Playtime not shown'') \<and>
     (\<forall>a cap b. trim (play_time_text p) = a @ ''('' @ cap @ '' at review time)'' @ b \<and>
        CHR ''('' \<notin> set a \<and> CHR '')'' \<notin> set cap \<and> cap \<noteq> []
        \<longrightarrow> playtime rd = cap) \<and>
     (match_at_review_time (trim (play_time_text p)) = None \<and>
      \<not> truthy (fallbackPlaytime (trim (play_time_text p)))
        \<longrightarrow> playtime rd = ''Playtime not shown'') \<and>
     datePosted rd =
       (if remove_first ''Posted: '' (trim (recommendation_date_text p)) \<noteq> []
        then remove_first ''Posted: '' (trim (recommendation_date_text p))
        else ''Date not found'') \<and>
     reviewText rd =
       (if truthy (review_text_html p)
        then trim (html_text e (replace_br (the (review_text_html p))))
        else ''Could not load review text.'')"
proof -
  have "scrapeSteamReview e url = Review (parse_review_page (html_text e) p)"
    using assms by (simp add: scrapeSteamReview_def)
  moreover have "match_at_review_time (trim (play_time_text p)) = None \<and>
      \<not> truthy (fallbackPlaytime (trim (play_time_text p)))
        \<longrightarrow> playtime (parse_review_page (html_text e) p) = ''Playtime not shown''"
    by (simp add: parse_playtime scrape_playtime_default)
  moreover have "\<forall>a cap b. trim (play_time_text p) = a @ ''('' @ cap @ '' at review time)'' @ b \<and>
        CHR ''('' \<notin> set a \<and> CHR '')'' \<notin> set cap \<and> cap \<noteq> []
        \<longrightarrow> playtime (parse_review_page (html_text e) p) = cap"
    by (auto simp: parse_playtime_explicit match_at_review_time_found simp del: append.simps)
  ultimately show ?thesis
    using parse_reviewerName parse_reviewerAvatarUrl parse_recommendation
      parse_playtime_explicit parse_datePosted parse_reviewText
    by blast
qed

text \<open>
  Claim C8 on a fetched page whose date element holds only the label \<^verbatim>\<open>Posted: \<close> and
  whose review body is a blank. Neither field can be extracted, and neither takes its
  default: trimming comes before the removal of the label, which then no longer matches,
  so the date is \<^verbatim>\<open>Posted:\<close>; and the body is tested before it is trimmed, so the text
  is the empty string. The name and the stance are tested after trimming and do fall back.
\<close>

theorem label_only_date_and_blank_body_miss_defaults:
  "scrapeSteamReview label_only_env ''https://steamcommunity.com/id/a/recommended/620/'' =
     Review \<lparr>reviewerName = ''Bob'', reviewerAvatarUrl = None,
       recommendation = ''Recommended'', playtime = ''4.5 hrs'',
       datePosted = ''Posted:'', reviewText = ''''\<rparr> \<and>
   ''Posted:'' \<noteq> ''Date not found'' \<and> '''' \<noteq> ''Could not load review text.''"
  by (simp add: scrapeSteamReview_def label_only_env_def label_only_page_def
      parse_review_page_def scrape_reviewText_def scrape_datePosted_def
      scrape_playtime_def scrape_recommendation_def scrape_reviewerAvatarUrl_def
      scrape_reviewerName_def default_reviewData_def truthy_def
      trim_def is_space_def at_review_time_here_def remove_first_def
      replace_br_def br_tag_length_def startsWith_def quiet_env_def)

section \<open>Failing clue sources\<close>

text \<open>
  Claim C5 says that the failure record of a clue source has the failure reason
  \<^verbatim>\<open>fetch-failed\<close>. The record the scraper builds has the message \<^verbatim>\<open>Scraping failed\<close>.
\<close>

theorem failure_reason_counterexample:
  "scrapeSteamReview quiet_env ''https://steamcommunity.com/id/a/recommended/620/'' =
     Failure True ''Scraping failed'' ''https://steamcommunity.com/id/a/recommended/620/'' ''Error''
   \<and> message (scrapeSteamReview quiet_env ''https://steamcommunity.com/id/a/recommended/620/'')
      \<noteq> ''fetch-failed''"
  by (simp add: scrapeSteamReview_def quiet_env_def)

text \<open>
  Claim C5, amended: for every list of clue-source references, the records are as many as
  the references and in their order; a reference whose fetch fails yields
  \<^verbatim>\<open>{error: true, message: "Scraping failed", originalUrl, reviewerName: "Error"}\<close> with its
  own locator as \<^verbatim>\<open>originalUrl\<close>; every other reference yields the review parsed from its
  own page, whatever its siblings do; and the handler, the URL query being answered, sends
  all of them with status 200.
\<close>

theorem failed_clue_source_yields_failure_record:
  "length (map (scrapeSteamReview e) urls) = length urls \<and>
   (\<forall>i<length urls.
      (http_get e (urls ! i) = None \<longrightarrow>
         map (scrapeSteamReview e) urls ! i
           = Failure True ''Scraping failed'' (urls ! i) ''Error'') \<and>
      (\<forall>p. http_get e (urls ! i) = Some p \<longrightarrow>
         map (scrapeSteamReview e) urls ! i = Review (parse_review_page (html_text e) p))) \<and>
   (reviews_outcome e = RowsOk \<longrightarrow>
      fst (fetchReviewsForGameAndRespond e g rs) =
        \<lparr>status = 200,
         body = GameData (row_title g) (row_steam_app_id g)
                  (map (scrapeSteamReview e) (query_review_urls (row_id g) rs))\<rparr>)"
proof (intro conjI allI impI)
  show "length (map (scrapeSteamReview e) urls) = length urls" by simp
next
  fix i assume "i < length urls" "http_get e (urls ! i) = None"
  then show "map (scrapeSteamReview e) urls ! i
      = Failure True ''Scraping failed'' (urls ! i) ''Error''"
    by (simp add: scrapeSteamReview_def)
next
  fix i p assume "i < length urls" "http_get e (urls ! i) = Some p"
  then show "map (scrapeSteamReview e) urls ! i = Review (parse_review_page (html_text e) p)"
    by (simp add: scrapeSteamReview_def)
next
  assume ok: "reviews_outcome e = RowsOk"
  show "fst (fetchReviewsForGameAndRespond e g rs) =
        \<lparr>status = 200,
         body = GameData (row_title g) (row_steam_app_id g)
                  (map (scrapeSteamReview e) (query_review_urls (row_id g) rs))\<rparr>"
  proof (cases "query_review_urls (row_id g) rs")
    case Nil
    with ok show ?thesis by (simp add: fetchReviewsForGameAndRespond_def)
  next
    case (Cons u us)
    with ok show ?thesis by (simp add: fetchReviewsForGameAndRespond_def)
  qed
qed

theorem failed_clue_source_yields_failure_record_witness:
  "fst (fetchReviewsForGameAndRespond one_page_env (select_row portal_2_played)
          (game_reviews played_db)) =
     \<lparr>status = 200,
      body = GameData ''Portal 2'' ''620''
        [Review \<lparr>reviewerName = ''Bob'', reviewerAvatarUrl = None,
           recommendation = ''Recommended'', playtime = ''Playtime not shown'',
           datePosted = ''Date not found'', reviewText = ''Great\<newline>game''\<rparr>,
         Failure True ''Scraping failed''
           ''https://steamcommunity.com/id/b/recommended/620/'' ''Error'']\<rparr>"
proof -
  let ?urls = "[''https://steamcommunity.com/id/a/recommended/620/'',
                ''https://steamcommunity.com/id/b/recommended/620/'']"
  have q: "query_review_urls (row_id (select_row portal_2_played)) (game_reviews played_db)
      = ?urls"
    by (simp add: query_review_urls_def ex_defs)
  have ok: "reviews_outcome one_page_env = RowsOk"
    by (simp add: one_page_env_def quiet_env_def)
  note t = failed_clue_source_yields_failure_record[of one_page_env ?urls "select_row portal_2_played" "game_reviews played_db"]
  have a: "http_get one_page_env (?urls ! 0) = Some sparse_page"
    by (simp add: one_page_env_def)
  have b: "http_get one_page_env (?urls ! 1) = None"
    by (simp add: one_page_env_def)
  note per = t[THEN conjunct2, THEN conjunct1, rule_format]
  from per[of 0] a have r0: "map (scrapeSteamReview one_page_env) ?urls ! 0
      = Review (parse_review_page (html_text one_page_env) sparse_page)"
    by simp
  from per[of 1] b have r1: "map (scrapeSteamReview one_page_env) ?urls ! 1
      = Failure True ''Scraping failed'' (?urls ! 1) ''Error''"
    by simp
  from t ok q have "fst (fetchReviewsForGameAndRespond one_page_env (select_row portal_2_played)
          (game_reviews played_db)) =
        \<lparr>status = 200,
         body = GameData (row_title (select_row portal_2_played))
                  (row_steam_app_id (select_row portal_2_played))
                  (map (scrapeSteamReview one_page_env) ?urls)\<rparr>"
    by simp
  moreover from r0 r1 have "map (scrapeSteamReview one_page_env) ?urls =
      [Review (parse_review_page (html_text one_page_env) sparse_page),
       Failure True ''Scraping failed''
           ''https://steamcommunity.com/id/b/recommended/620/'' ''Error'']"
    by simp
  ultimately show ?thesis
    by (simp add: parse_sparse one_page_env_def quiet_env_def select_row_def
        portal_2_played_def portal_2_def)
qed

section \<open>Rotation through a fresh catalog\<close>









section \<open>The daily cache\<close>

text \<open>
  Every request leaves the slot filled for its day, a request on a filled slot touches
  neither the store nor the network, and it repeats the first response unless that was the
  body \<^verbatim>\<open>{error: true, message}\<close> of a failed selection.
\<close>

lemma getAndScrape_cases:
  "(\<exists>cs l. getAndScrapeReviewDataForGame e g rs =
        (GameData (row_title g) (row_steam_app_id g) cs, l)) \<or>
   (\<exists>ti a l. getAndScrapeReviewDataForGame e g rs =
        (GameDataError ''Failed to process game reviews.'' ti a [], l))"
  by (cases "reviews_outcome e") (auto simp: getAndScrapeReviewDataForGame_def Let_def)

lemma cache_hit:
  assumes "cache_date (dailyGameCache s) = Some t" "gameData (dailyGameCache s) = Some gd"
  shows "daily_game_cached e t s =
           ((if has_error gd
             then \<lparr>status = 500,
                   body = ErrorString
                     (or_else (message_of gd) ''Failed to get daily game data (cached error).'')\<rparr>
             else \<lparr>status = 200, body = gd\<rparr>), s, [])"
  using assms by (simp add: daily_game_cached_def)

lemma cache_miss:
  assumes "\<not> (cache_date (dailyGameCache s) = Some t \<and> gameData (dailyGameCache s) \<noteq> None)"
  shows "daily_game_cached e t s =
      (case select_daily_game e t (games (store s)) of
          (Rejected, gs, log) \<Rightarrow>
            (\<lparr>status = 500,
              body = ErrorMarker ''Internal server error while selecting daily game.''\<rparr>,
             \<lparr>store = (store s)\<lparr>games := gs\<rparr>,
              dailyGameCache = \<lparr>cache_date = Some t,
                gameData = Some (ErrorMarker
                  ''Internal server error while selecting daily game.'')\<rparr>\<rparr>,
             log)
        | (Resolved None, gs, log) \<Rightarrow>
            (\<lparr>status = 500, body = ErrorMarker ''No games available to select for today.''\<rparr>,
             \<lparr>store = (store s)\<lparr>games := gs\<rparr>,
              dailyGameCache = \<lparr>cache_date = Some t,
                gameData = Some (ErrorMarker ''No games available to select for today.'')\<rparr>\<rparr>,
             log)
        | (Resolved (Some game), gs, log) \<Rightarrow>
            (let (full, log') = getAndScrapeReviewDataForGame e game (game_reviews (store s))
             in ((if has_error full
                  then \<lparr>status = 500,
                        body = ErrorString
                          (or_else (message_of full)
                             ''Failed to process reviews for the daily game.'')\<rparr>
                  else \<lparr>status = 200, body = full\<rparr>),
                 \<lparr>store = (store s)\<lparr>games := gs\<rparr>,
                  dailyGameCache = \<lparr>cache_date = Some t, gameData = Some full\<rparr>\<rparr>,
                 log @ log')))"
  by (simp only: daily_game_cached_def if_not_P[OF assms] Let_def)

lemma daily_game_cached_fills_cache:
  assumes "daily_game_cached e t s = (r, s', log)"
  shows "cache_date (dailyGameCache s') = Some t \<and> gameData (dailyGameCache s') \<noteq> None"
proof (cases "cache_date (dailyGameCache s) = Some t \<and> gameData (dailyGameCache s) \<noteq> None")
  case True
  then obtain gd where "gameData (dailyGameCache s) = Some gd" by auto
  with True assms cache_hit[of s t gd e] show ?thesis by auto
next
  case False
  from assms show ?thesis
    unfolding cache_miss[OF False]
    by (auto split: prod.splits settled.splits option.splits simp: Let_def)
qed

lemma cache_hit_is_silent:
  assumes "cache_date (dailyGameCache s) = Some t" "gameData (dailyGameCache s) \<noteq> None"
  shows "snd (daily_game_cached e t s) = (s, [])"
proof -
  from assms(2) obtain gd where "gameData (dailyGameCache s) = Some gd" by auto
  from cache_hit[OF assms(1) this] show ?thesis by simp
qed

lemma second_call_served_from_cache:
  assumes "daily_game_cached e t s = (r, s', log)"
  shows "snd (daily_game_cached e' t s') = (s', [])"
  using daily_game_cached_fills_cache[OF assms] by (simp add: cache_hit_is_silent)

lemma msg_truthy:
  "or_else (Some ''Failed to process game reviews.'') d = ''Failed to process game reviews.''"
  by (simp add: or_else_def truthy_def)

lemma second_call_same_payload:
  assumes first: "daily_game_cached e t s = (r, s', log)"
    and no_marker: "\<forall>m. body r \<noteq> ErrorMarker m"
  shows "daily_game_cached e' t s' = (r, s', [])"
proof (cases "cache_date (dailyGameCache s) = Some t \<and> gameData (dailyGameCache s) \<noteq> None")
  case True
  then obtain gd where gd: "gameData (dailyGameCache s) = Some gd" by auto
  from True gd first cache_hit[of s t gd e] have "s' = s" and
    "r = (if has_error gd
             then \<lparr>status = 500,
                   body = ErrorString
                     (or_else (message_of gd) ''Failed to get daily game data (cached error).'')\<rparr>
             else \<lparr>status = 200, body = gd\<rparr>)" by auto
  with True gd cache_hit[of s t gd e'] show ?thesis by simp
next
  case False
  obtain res gs l1 where sel: "select_daily_game e t (games (store s)) = (res, gs, l1)"
    by (cases "select_daily_game e t (games (store s))")
  show ?thesis
  proof (cases res)
    case Rejected
    with first sel no_marker show ?thesis unfolding cache_miss[OF False] by auto
  next
    case (Resolved x)
    show ?thesis
    proof (cases x)
      case None
      with Resolved first sel no_marker show ?thesis unfolding cache_miss[OF False] by auto
    next
      case (Some g)
      from getAndScrape_cases[of e g "game_reviews (store s)"]
      show ?thesis
      proof (elim disjE exE)
        fix cs l assume ga: "getAndScrapeReviewDataForGame e g (game_reviews (store s)) =
          (GameData (row_title g) (row_steam_app_id g) cs, l)"
        with Some Resolved first sel have r: "r = \<lparr>status = 200, body = GameData (row_title g) (row_steam_app_id g) cs\<rparr>"
          and s': "cache_date (dailyGameCache s') = Some t"
            "gameData (dailyGameCache s') = Some (GameData (row_title g) (row_steam_app_id g) cs)"
          unfolding cache_miss[OF False] by auto
        from cache_hit[OF s', of e'] r show ?thesis by simp
      next
        fix ti a l assume ga: "getAndScrapeReviewDataForGame e g (game_reviews (store s)) =
          (GameDataError ''Failed to process game reviews.'' ti a [], l)"
        with Some Resolved first sel have r: "r = \<lparr>status = 500, body = ErrorString ''Failed to process game reviews.''\<rparr>"
          and s': "cache_date (dailyGameCache s') = Some t"
            "gameData (dailyGameCache s') = Some (GameDataError ''Failed to process game reviews.'' ti a [])"
          unfolding cache_miss[OF False] by (auto simp: msg_truthy)
        from cache_hit[OF s', of e'] r show ?thesis by (simp add: msg_truthy)
      qed
    qed
  qed
qed

text \<open>
  With an active entry in the catalog and a store that answers the selector, the second
  request of a day repeats the first payload, whatever the review query and the network did.
\<close>

lemma select_daily_game_succeeds:
  assumes "\<exists>g\<in>set gs. is_active g" "store_answers e"
  shows "\<exists>g gs' log. select_daily_game e t gs = (Resolved (Some g), gs', log)"
proof -
  from assms(1) have "query_least_recent (random_C e) gs \<noteq> None"
    by (simp add: query_least_recent_None)
  with assms(2) show ?thesis
    by (auto simp: select_daily_game_def block_D_def store_answers_def split: option.splits)
qed

lemma cache_replays_daily_payload:
  assumes act: "\<exists>g\<in>set (games (store s)). is_active g"
    and ok: "store_answers e"
    and first: "daily_game_cached e t s = (r, s', log)"
  shows "daily_game_cached e' t s' = (r, s', [])"
proof (rule second_call_same_payload[OF first])
  show "\<forall>m. body r \<noteq> ErrorMarker m"
  proof (cases "cache_date (dailyGameCache s) = Some t \<and> gameData (dailyGameCache s) \<noteq> None")
    case True
    then obtain gd where gd: "gameData (dailyGameCache s) = Some gd" by auto
    from True gd first cache_hit[of s t gd e] show ?thesis
      by (cases gd) (auto split: if_splits)
  next
    case False
    from select_daily_game_succeeds[OF act ok] obtain g gs' l1 where
      sel: "select_daily_game e t (games (store s)) = (Resolved (Some g), gs', l1)" by blast
    from getAndScrape_cases[of e g "game_reviews (store s)"] first sel show ?thesis
      unfolding cache_miss[OF False] by (auto simp: msg_truthy)
  qed
qed

text \<open>
  On a miss the cache-integrated handler treats a failing write and an entry without clue
  sources as the handler without cache does, and keeps the outcome for the day.
\<close>

lemma write_failure_is_cached_error:
  assumes "select_daily_game (e\<lparr>err_D := False\<rparr>) t (games (store s))
             = (Resolved (Some g), gs', log)"
      and "UpdateLastPlayed (row_id g) \<in> set log"
      and "err_D e"
      and "\<not> (cache_date (dailyGameCache s) = Some t \<and> gameData (dailyGameCache s) \<noteq> None)"
  shows "daily_game_cached e t s =
           (\<lparr>status = 500,
             body = ErrorMarker ''Internal server error while selecting daily game.''\<rparr>,
            s\<lparr>dailyGameCache :=
               \<lparr>cache_date = Some t,
                gameData = Some (ErrorMarker
                  ''Internal server error while selecting daily game.'')\<rparr>\<rparr>,
            log)"
  using select_daily_game_write_fails[OF assms(1-3)]
  unfolding cache_miss[OF assms(4)] by simp

lemma empty_clue_list_is_cached:
  assumes "select_daily_game e t (games (store s)) = (Resolved (Some g), gs', log)"
      and "reviews_outcome e = RowsOk"
      and "filter (\<lambda>r. game_id r = row_id g) (game_reviews (store s)) = []"
      and "\<not> (cache_date (dailyGameCache s) = Some t \<and> gameData (dailyGameCache s) \<noteq> None)"
  shows "daily_game_cached e t s =
           (\<lparr>status = 200, body = GameData (row_title g) (row_steam_app_id g) []\<rparr>,
            \<lparr>store = (store s)\<lparr>games := gs'\<rparr>,
             dailyGameCache =
               \<lparr>cache_date = Some t,
                gameData = Some (GameData (row_title g) (row_steam_app_id g) [])\<rparr>\<rparr>,
            log @ [QueryReviewUrls (row_id g)])"
  using assms(1-3) unfolding cache_miss[OF assms(4)]
  by (simp add: getAndScrapeReviewDataForGame_def query_review_urls_def)

text \<open>Two requests of one day to the handler without cache, the network failing in between.\<close>

lemma first_call_no_cache:
  "daily_game one_page_env ''2024-05-01'' portal_db =
     (\<lparr>status = 200,
       body = GameData ''Portal 2'' ''620''
         [Review \<lparr>reviewerName = ''Bob'', reviewerAvatarUrl = None,
            recommendation = ''Recommended'', playtime = ''Playtime not shown'',
            datePosted = ''Date not found'', reviewText = ''Great\<newline>game''\<rparr>,
          Failure True ''Scraping failed''
            ''https://steamcommunity.com/id/b/recommended/620/'' ''Error'']\<rparr>,
      portal_db_marked,
      [QueryPreselected, QueryUnplayed, UpdateLastPlayed 1, QueryReviewUrls 1,
       HttpGet ''https://steamcommunity.com/id/a/recommended/620/'',
       HttpGet ''https://steamcommunity.com/id/b/recommended/620/''])"
  by (simp add: daily_game_def select_daily_game_def block_D_def query_preselected_def
      query_unplayed_def update_last_played_on_def fetchReviewsForGameAndRespond_def
      query_review_urls_def scrapeSteamReview_def parse_sparse
      portal_db_def portal_db_marked_def one_page_env_def ex_defs)

lemma second_call_no_cache:
  "daily_game quiet_env ''2024-05-01'' portal_db_marked =
     (\<lparr>status = 200,
       body = GameData ''Portal 2'' ''620''
         [Failure True ''Scraping failed''
            ''https://steamcommunity.com/id/a/recommended/620/'' ''Error'',
          Failure True ''Scraping failed''
            ''https://steamcommunity.com/id/b/recommended/620/'' ''Error'']\<rparr>,
      portal_db_marked,
      [QueryPreselected, QueryReviewUrls 1,
       HttpGet ''https://steamcommunity.com/id/a/recommended/620/'',
       HttpGet ''https://steamcommunity.com/id/b/recommended/620/''])"
  by (simp add: daily_game_def select_daily_game_def query_preselected_def
      fetchReviewsForGameAndRespond_def
      query_review_urls_def scrapeSteamReview_def
      portal_db_marked_def ex_defs)

text \<open>
  Claim C1 on the code. The handler without cache has no slot: on the second request of a
  day it queries the catalog and fetches every clue source again, and its payload follows
  the network of that moment. The cache-integrated handler serves the second request from
  the slot without any query or fetch; but when the first request of the day fails in the
  selection (here Block A's query calls back with an error, the catalog having one active
  entry), the first response is the cached object itself, \<^verbatim>\<open>{error: true, message}\<close>, and
  the second is \<^verbatim>\<open>{error: message}\<close>: the two payloads differ.
\<close>

theorem same_day_payloads_differ:
  "fst (daily_game one_page_env ''2024-05-01'' portal_db)
     \<noteq> fst (daily_game quiet_env ''2024-05-01''
                (fst (snd (daily_game one_page_env ''2024-05-01'' portal_db)))) \<and>
   snd (snd (daily_game quiet_env ''2024-05-01''
                (fst (snd (daily_game one_page_env ''2024-05-01'' portal_db))))) =
     [QueryPreselected, QueryReviewUrls 1,
      HttpGet ''https://steamcommunity.com/id/a/recommended/620/'',
      HttpGet ''https://steamcommunity.com/id/b/recommended/620/''] \<and>
   daily_game_cached (quiet_env\<lparr>err_A := True\<rparr>) ''2024-05-01'' fresh_server =
     (\<lparr>status = 500,
       body = ErrorMarker ''Internal server error while selecting daily game.''\<rparr>,
      fresh_server\<lparr>dailyGameCache :=
        \<lparr>cache_date = Some ''2024-05-01'',
         gameData = Some (ErrorMarker
           ''Internal server error while selecting daily game.'')\<rparr>\<rparr>,
      [QueryPreselected]) \<and>
   daily_game_cached quiet_env ''2024-05-01''
     (fresh_server\<lparr>dailyGameCache :=
        \<lparr>cache_date = Some ''2024-05-01'',
         gameData = Some (ErrorMarker
           ''Internal server error while selecting daily game.'')\<rparr>\<rparr>) =
     (\<lparr>status = 500,
       body = ErrorString ''Internal server error while selecting daily game.''\<rparr>,
      fresh_server\<lparr>dailyGameCache :=
        \<lparr>cache_date = Some ''2024-05-01'',
         gameData = Some (ErrorMarker
           ''Internal server error while selecting daily game.'')\<rparr>\<rparr>,
      [])"
proof (intro conjI)
  show "fst (daily_game one_page_env ''2024-05-01'' portal_db)
     \<noteq> fst (daily_game quiet_env ''2024-05-01''
                (fst (snd (daily_game one_page_env ''2024-05-01'' portal_db))))"
    by (simp add: first_call_no_cache second_call_no_cache)
  show "snd (snd (daily_game quiet_env ''2024-05-01''
                (fst (snd (daily_game one_page_env ''2024-05-01'' portal_db))))) =
     [QueryPreselected, QueryReviewUrls 1,
      HttpGet ''https://steamcommunity.com/id/a/recommended/620/'',
      HttpGet ''https://steamcommunity.com/id/b/recommended/620/'']"
    by (simp add: first_call_no_cache second_call_no_cache)
  show "daily_game_cached (quiet_env\<lparr>err_A := True\<rparr>) ''2024-05-01'' fresh_server =
     (\<lparr>status = 500,
       body = ErrorMarker ''Internal server error while selecting daily game.''\<rparr>,
      fresh_server\<lparr>dailyGameCache :=
        \<lparr>cache_date = Some ''2024-05-01'',
         gameData = Some (ErrorMarker
           ''Internal server error while selecting daily game.'')\<rparr>\<rparr>,
      [QueryPreselected])"
    by (simp add: daily_game_cached_def select_daily_game_def fresh_server_def quiet_env_def
        Let_def)
  show "daily_game_cached quiet_env ''2024-05-01''
     (fresh_server\<lparr>dailyGameCache :=
        \<lparr>cache_date = Some ''2024-05-01'',
         gameData = Some (ErrorMarker
           ''Internal server error while selecting daily game.'')\<rparr>\<rparr>) =
     (\<lparr>status = 500,
       body = ErrorString ''Internal server error while selecting daily game.''\<rparr>,
      fresh_server\<lparr>dailyGameCache :=
        \<lparr>cache_date = Some ''2024-05-01'',
         gameData = Some (ErrorMarker
           ''Internal server error while selecting daily game.'')\<rparr>\<rparr>,
      [])"
    by (simp add: daily_game_cached_def fresh_server_def or_else_def truthy_def Let_def)
qed

section \<open>Short search terms\<close>

text \<open>
  Claim C10: when the term parameter is missing, or its trimmed value has fewer than two
  characters, the endpoint answers the empty array, whatever the limit parameter, the
  cached app list and the outcome of a refresh of that list are.
\<close>

theorem short_search_term_gives_no_suggestions:
  assumes "term_param = None \<or> (\<exists>t. term_param = Some t \<and> length (trim t) < 2)"
  shows "fst (search_steam_games env st term_param limit_param) = []"
proof -
  have "(if truthy term_param then trim (the term_param) else []) = []
      \<or> length (if truthy term_param then trim (the term_param) else []) < 2"
    using assms by (auto simp: truthy_def)
  then show ?thesis
    by (auto simp: search_steam_games_def Let_def)
qed

theorem short_search_term_gives_no_suggestions_witness:
  "fst (search_steam_games idle_search_env warm_autocomplete (Some '' D '') (Some ''5'')) = []"
proof -
  have "length (trim '' D '') < 2" by (simp add: trim_def is_space_def)
  then have "Some '' D '' = None \<or> (\<exists>t. Some '' D '' = Some t \<and> length (trim t) < 2)"
    by blast
  from short_search_term_gives_no_suggestions[OF this] show ?thesis .
qed

end
